theory Spec2Isabelle
  imports Main
begin

section \<open>EdDSA (Ed25519) signatures: \<^verbatim>\<open>lib/Crypto/Signature/eddsa.py\<close>\<close>

text \<open>
  The module signs and verifies with three collaborators that live in other modules:
  the big integers of \<^verbatim>\<open>Crypto.Math.Numbers\<close>, the hash of \<^verbatim>\<open>Crypto.Hash.SHA512\<close> and the
  keys, points and codecs of \<^verbatim>\<open>Crypto.PublicKey.ECC\<close>. The embedding keeps the protocol
  logic of \<^verbatim>\<open>EdDSASigScheme\<close> as it is written and takes the hash, the point arithmetic and
  the point codec as parameters (the record \<open>externals\<close>), over an arbitrary type \<open>'pt\<close>
  of curve points whose HOL equality is the equality of points.
\<close>

subsection \<open>Bytes, exceptions, integers\<close>

text \<open>A Python \<^verbatim>\<open>bytes\<close> value is a list of 8-bit characters.\<close>

type_synonym bytes = string

text \<open>The two exception classes the module raises, each with its message.\<close>

datatype error = ValueError string | TypeError string

text \<open>
  Modelled from the spec: \<^verbatim>\<open>Integer.from_bytes(b, 'little')\<close> of \<^verbatim>\<open>Crypto.Math.Numbers\<close>,
  "interpreted as a little-endian integer": the first byte is the least significant.
\<close>

definition from_bytes_little :: "bytes \<Rightarrow> int" where
  "from_bytes_little b = foldr (\<lambda>c acc. of_char c + 256 * acc) b 0"

text \<open>The \<open>n\<close> low bytes of \<open>v\<close>, least significant first.\<close>

fun little_bytes :: "nat \<Rightarrow> int \<Rightarrow> bytes" where
  "little_bytes 0 v = []"
| "little_bytes (Suc n) v = char_of (v mod 256) # little_bytes n (v div 256)"

text \<open>
  Modelled from the spec: \<^verbatim>\<open>Integer.to_bytes(block_size, 'little')\<close>, "encode as 32-byte
  little-endian". A negative value or one that does not fit the block raises \<^verbatim>\<open>ValueError\<close>.
\<close>

definition to_bytes_little :: "int \<Rightarrow> nat \<Rightarrow> error + bytes" where
  "to_bytes_little v block_size =
     (if v < 0 then Inl (ValueError ''Conversion only valid for non-negative numbers'')
      else if 256 ^ block_size \<le> v then Inl (ValueError ''Value too large to encode'')
      else Inr (little_bytes block_size v))"

text \<open>
  Modelled from the spec: \<^verbatim>\<open>bchr\<close> of \<^verbatim>\<open>Crypto.Util.py3compat\<close>, \<open>byte(n)\<close>: the one-byte
  string of value \<open>n\<close>; Python's \<^verbatim>\<open>bytes([n])\<close> raises \<^verbatim>\<open>ValueError\<close> from 256 on.
\<close>

definition bchr :: "nat \<Rightarrow> error + bytes" where
  "bchr n = (if n < 256 then Inr [char_of n] else Inl (ValueError ''bytes must be in range(0, 256)''))"

subsection \<open>Curves, keys and the collaborators\<close>

text \<open>\<^verbatim>\<open>key._curve\<close>: the fields of the curve description that the module reads.\<close>

record 'pt curve =
  curve_name :: string
  curve_order :: int
  curve_G :: 'pt

text \<open>
  An \<^verbatim>\<open>EccKey\<close>: its curve, its public point \<^verbatim>\<open>pointQ\<close> and, when it has a private half,
  the secret scalar \<^verbatim>\<open>d\<close> with the nonce-derivation secret \<^verbatim>\<open>_prefix\<close> (an Ed25519 key
  gets both from its seed, or neither).
\<close>

record 'pt ecc_key =
  key_curve :: "'pt curve"
  pointQ :: 'pt
  key_private :: "(int \<times> bytes) option"

definition has_private :: "'pt ecc_key \<Rightarrow> bool" where
  "has_private key = (key_private key \<noteq> None)"

definition key_d :: "'pt ecc_key \<Rightarrow> int" where
  "key_d key = (case key_private key of Some (d, prefix) \<Rightarrow> d | None \<Rightarrow> 0)"

definition key_prefix :: "'pt ecc_key \<Rightarrow> bytes" where
  "key_prefix key = (case key_private key of Some (d, prefix) \<Rightarrow> prefix | None \<Rightarrow> [])"

text \<open>
  The functions of other modules that the module calls:
  \<^item> \<open>SHA512_digest data\<close> is \<^verbatim>\<open>SHA512.new(data).digest()\<close>;
  \<^item> \<open>import_ed25519_public_key\<close> is \<^verbatim>\<open>_import_ed25519_public_key\<close>, from 32 bytes to the
    coordinates of a point, and \<open>construct x y\<close> is
    \<^verbatim>\<open>construct(curve="Ed25519", point_x=x, point_y=y)\<close>; both may raise;
  \<^item> \<open>export_ed25519 P\<close> is \<^verbatim>\<open>EccKey(point=P)._export_ed25519()\<close>, the encoding of a point;
  \<^item> \<open>smul n P\<close> is \<^verbatim>\<open>n * P\<close> and \<open>padd P Q\<close> is \<^verbatim>\<open>P + Q\<close> on \<^verbatim>\<open>EccPoint\<close>.
\<close>

record 'pt externals =
  SHA512_digest :: "bytes \<Rightarrow> bytes"
  import_ed25519_public_key :: "bytes \<Rightarrow> error + int \<times> int"
  construct :: "int \<Rightarrow> int \<Rightarrow> error + 'pt ecc_key"
  export_ed25519 :: "'pt \<Rightarrow> bytes"
  smul :: "int \<Rightarrow> 'pt \<Rightarrow> 'pt"
  padd :: "'pt \<Rightarrow> 'pt \<Rightarrow> 'pt"

text \<open>\<^verbatim>\<open>import_public_key\<close> (lines 38-55).\<close>

definition import_public_key :: "'pt externals \<Rightarrow> bytes \<Rightarrow> error + 'pt ecc_key" where
  "import_public_key ext encoded =
     (case import_ed25519_public_key ext encoded of
        Inl e \<Rightarrow> Inl e
      | Inr (x, y) \<Rightarrow> construct ext x y)"

subsection \<open>The signature object\<close>

text \<open>The argument \<^verbatim>\<open>msg_or_hash\<close>: raw bytes, a \<^verbatim>\<open>SHA512Hash\<close> object (carried here as the
  bytes its \<^verbatim>\<open>digest()\<close> returns), or a value of any other type.\<close>

datatype msg_or_hash = Bytes bytes | SHA512Hash bytes | Other

definition is_SHA512Hash :: "msg_or_hash \<Rightarrow> bool" where
  "is_SHA512Hash m = (case m of SHA512Hash h \<Rightarrow> True | _ \<Rightarrow> False)"

definition is_bytes :: "msg_or_hash \<Rightarrow> bool" where
  "is_bytes m = (case m of Bytes b \<Rightarrow> True | _ \<Rightarrow> False)"

text \<open>\<^verbatim>\<open>PHM = msg_or_hash.digest() if ph else msg_or_hash\<close>, for an argument that passed the
  type check.\<close>

definition PHM_of :: "msg_or_hash \<Rightarrow> bytes" where
  "PHM_of m = (case m of SHA512Hash h \<Rightarrow> h | Bytes b \<Rightarrow> b | Other \<Rightarrow> [])"

text \<open>The attributes of \<^verbatim>\<open>EdDSASigScheme\<close>: \<^verbatim>\<open>_key\<close>, \<^verbatim>\<open>_context\<close>, \<^verbatim>\<open>_A\<close>, \<^verbatim>\<open>_order\<close>.\<close>

record 'pt scheme =
  s_key :: "'pt ecc_key"
  s_context :: bytes
  s_A :: bytes
  s_order :: int

text \<open>\<^verbatim>\<open>EdDSASigScheme.__init__\<close> (lines 88-98).\<close>

definition init :: "'pt externals \<Rightarrow> 'pt ecc_key \<Rightarrow> bytes \<Rightarrow> 'pt scheme" where
  "init ext key context =
     \<lparr>s_key = key, s_context = context,
      s_A = export_ed25519 ext (pointQ key),
      s_order = curve_order (key_curve key)\<rparr>"

text \<open>\<^verbatim>\<open>new\<close> (lines 199-229); the key is an \<^verbatim>\<open>EccKey\<close> by its type, \<open>None\<close> is the default
  context.\<close>

definition new :: "'pt externals \<Rightarrow> 'pt ecc_key \<Rightarrow> string \<Rightarrow> bytes option \<Rightarrow> error + 'pt scheme" where
  "new ext key mode context =
     (if curve_name (key_curve key) \<noteq> ''ed25519''
      then Inl (ValueError ''EdDSA can only be used with Ed25519 keys'')
      else if mode \<noteq> ''rfc8032'' then Inl (ValueError (''Mode must be 'rfc8032'' @ [CHR 0x27]))
      else (case context of
              None \<Rightarrow> Inr (init ext key [])
            | Some c \<Rightarrow>
                if length c > 255
                then Inl (ValueError ''Context for EdDSA must not be longer than 255 bytes'')
                else Inr (init ext key c)))"

text \<open>\<^verbatim>\<open>can_sign\<close> (lines 100-104).\<close>

definition can_sign :: "'pt scheme \<Rightarrow> bool" where
  "can_sign self = has_private (s_key self)"

text \<open>The domain-separation prefix as \<^verbatim>\<open>sign\<close> builds it (lines 125-130).\<close>

definition sign_dom2 :: "bytes \<Rightarrow> bool \<Rightarrow> error + bytes" where
  "sign_dom2 context ph =
     (if context \<noteq> [] \<or> ph then
        (case bchr (if ph then 1 else 0) of
           Inl e \<Rightarrow> Inl e
         | Inr flag \<Rightarrow>
             (case bchr (length context) of
                Inl e \<Rightarrow> Inl e
              | Inr len \<Rightarrow> Inr (''SigEd25519 no Ed25519 collisions'' @ flag @ len @ context)))
      else Inr [])"

text \<open>The domain-separation prefix as \<^verbatim>\<open>verify\<close> builds it (lines 170-175).\<close>

definition verify_dom2 :: "bytes \<Rightarrow> bool \<Rightarrow> error + bytes" where
  "verify_dom2 context ph =
     (if context \<noteq> [] \<or> ph then
        (case bchr (if ph then 1 else 0) of
           Inl e \<Rightarrow> Inl e
         | Inr flag \<Rightarrow>
             (case bchr (length context) of
                Inl e \<Rightarrow> Inl e
              | Inr len \<Rightarrow> Inr (''SigEd25519 no Ed25519 collisions'' @ flag @ len @ context)))
      else Inr [])"

text \<open>The challenge as \<^verbatim>\<open>sign\<close> computes it (step 4, lines 142-143).\<close>

definition sign_k :: "'pt externals \<Rightarrow> 'pt scheme \<Rightarrow> bytes \<Rightarrow> bytes \<Rightarrow> bytes \<Rightarrow> int" where
  "sign_k ext self dom2 R_pk PHM =
     from_bytes_little (SHA512_digest ext (dom2 @ R_pk @ s_A self @ PHM)) mod s_order self"

text \<open>The challenge as \<^verbatim>\<open>verify\<close> computes it (step 2, lines 188-189).\<close>

definition verify_k :: "'pt externals \<Rightarrow> 'pt scheme \<Rightarrow> bytes \<Rightarrow> bytes \<Rightarrow> bytes \<Rightarrow> int" where
  "verify_k ext self dom2 signature PHM =
     from_bytes_little (SHA512_digest ext (dom2 @ take 32 signature @ s_A self @ PHM)) mod s_order self"

text \<open>
  \<^verbatim>\<open>EdDSASigScheme.sign\<close> (lines 106-147). A method call is a function of the object and
  the argument that returns the outcome, an exception or the signature, together with
  the object as the call leaves it.
\<close>

definition sign :: "'pt externals \<Rightarrow> 'pt scheme \<Rightarrow> msg_or_hash \<Rightarrow> (error + bytes) \<times> 'pt scheme" where
  "sign ext self m =
     (if \<not> has_private (s_key self) then (Inl (TypeError ''Private key is needed to sign''), self)
      else
        let ph = is_SHA512Hash m in
        if \<not> (ph \<or> is_bytes m)
        then (Inl (TypeError '''msg_or_hash' must be bytes of a SHA-512 hash''), self)
        else
          (case sign_dom2 (s_context self) ph of
             Inl e \<Rightarrow> (Inl e, self)
           | Inr dom2 \<Rightarrow>
               let PHM = PHM_of m;
                   r_hash = SHA512_digest ext (dom2 @ key_prefix (s_key self) @ PHM);
                   r = from_bytes_little r_hash mod s_order self;
                   R_pk = export_ed25519 ext (smul ext r (curve_G (key_curve (s_key self))));
                   k = sign_k ext self dom2 R_pk PHM;
                   s = (r + k * key_d (s_key self)) mod s_order self
               in (case to_bytes_little s 32 of
                     Inl e \<Rightarrow> (Inl e, self)
                   | Inr s_bytes \<Rightarrow> (Inr (R_pk @ s_bytes), self))))"

text \<open>
  \<^verbatim>\<open>EdDSASigScheme.verify\<close> (lines 149-196); \<open>Inr ()\<close> is the return without exception.
  The \<^verbatim>\<open>except ValueError\<close> of step 1 rewrites a \<^verbatim>\<open>ValueError\<close> only.
\<close>

definition verify ::
  "'pt externals \<Rightarrow> 'pt scheme \<Rightarrow> msg_or_hash \<Rightarrow> bytes \<Rightarrow> (error + unit) \<times> 'pt scheme" where
  "verify ext self m signature =
     (if length signature \<noteq> 64
      then (Inl (ValueError ''The signature is not authentic (length)''), self)
      else
        let ph = is_SHA512Hash m in
        if \<not> (ph \<or> is_bytes m)
        then (Inl (TypeError '''msg_or_hash' must be bytes of a SHA-512 hash''), self)
        else
          (case verify_dom2 (s_context self) ph of
             Inl e \<Rightarrow> (Inl e, self)
           | Inr dom2 \<Rightarrow>
               let PHM = PHM_of m in
               (case import_public_key ext (take 32 signature) of
                  Inl (ValueError msg) \<Rightarrow> (Inl (ValueError ''The signature is not authentic (R)''), self)
                | Inl (TypeError msg) \<Rightarrow> (Inl (TypeError msg), self)
                | Inr R_key \<Rightarrow>
                    let R = pointQ R_key;
                        s = from_bytes_little (drop 32 signature)
                    in if s > s_order self
                       then (Inl (ValueError ''The signature is not authentic (S)''), self)
                       else
                         let k = verify_k ext self dom2 signature PHM;
                             point1 = smul ext (s * 8) (curve_G (key_curve (s_key self)));
                             point2 = padd ext (smul ext 8 R) (smul ext (k * 8) (pointQ (s_key self)))
                         in if point1 \<noteq> point2
                            then (Inl (ValueError ''The signature is not authentic''), self)
                            else (Inr (), self))))"

subsection \<open>The specification's wording\<close>

text \<open>
  The domain-separation prefix in the words of the specification: empty when the context
  is empty and \<open>ph\<close> is false, otherwise the fixed string, \<open>byte(ph ? 1 : 0)\<close>,
  \<open>byte(len(context))\<close> and the context.
\<close>

definition dom2_spec :: "bytes \<Rightarrow> bool \<Rightarrow> bytes" where
  "dom2_spec context ph =
     (if context = [] \<and> \<not> ph then []
      else ''SigEd25519 no Ed25519 collisions'' @ [char_of (if ph then 1 else 0 :: nat)]
           @ [char_of (length context)] @ context)"

text \<open>
  The signature in the words of the specification (steps 3 to 9 of \<open>sign\<close>): with
  \<open>L\<close> the group order, \<open>A_bytes\<close> the encoded public key, \<open>r\<close> the nonce, \<open>R = r\<cdot>G\<close>,
  \<open>k\<close> the challenge and \<open>s = (r + k\<cdot>d) mod L\<close>, the result is \<open>encode(R)\<close> followed by
  the 32 little-endian bytes of \<open>s\<close>.
\<close>

definition sign_spec :: "'pt externals \<Rightarrow> 'pt ecc_key \<Rightarrow> bytes \<Rightarrow> msg_or_hash \<Rightarrow> bytes" where
  "sign_spec ext key context m =
     (let ph = is_SHA512Hash m;
          dom2 = dom2_spec context ph;
          PHM = (case m of SHA512Hash digest \<Rightarrow> digest | Bytes raw \<Rightarrow> raw | Other \<Rightarrow> []);
          L = curve_order (key_curve key);
          A_bytes = export_ed25519 ext (pointQ key);
          r = from_bytes_little (SHA512_digest ext (dom2 @ key_prefix key @ PHM)) mod L;
          R = smul ext r (curve_G (key_curve key));
          k = from_bytes_little (SHA512_digest ext (dom2 @ export_ed25519 ext R @ A_bytes @ PHM)) mod L;
          s = (r + k * key_d key) mod L
      in export_ed25519 ext R @ little_bytes 32 s)"

subsection \<open>What the module expects of its collaborators\<close>

text \<open>
  The multiples of the base point form a group of order \<open>L\<close> under \<open>padd\<close>, with \<open>smul\<close>
  as scalar multiplication by non-negative integers, and \<open>L\<close> fits 32 bytes.
\<close>

definition group_contract :: "'pt externals \<Rightarrow> 'pt curve \<Rightarrow> bool" where
  "group_contract ext crv \<longleftrightarrow>
     0 < curve_order crv \<and> curve_order crv < 2 ^ 256 \<and>
     (\<forall>a b. 0 \<le> a \<and> 0 \<le> b \<longrightarrow>
        smul ext a (smul ext b (curve_G crv)) = smul ext (a * b) (curve_G crv)) \<and>
     (\<forall>a b. 0 \<le> a \<and> 0 \<le> b \<longrightarrow>
        padd ext (smul ext a (curve_G crv)) (smul ext b (curve_G crv)) = smul ext (a + b) (curve_G crv)) \<and>
     (\<forall>a. 0 \<le> a \<longrightarrow>
        smul ext (a mod curve_order crv) (curve_G crv) = smul ext a (curve_G crv))"

text \<open>
  The point codec: a multiple of the base point is encoded in 32 bytes, and importing
  the encoding gives the point back.
\<close>

definition codec_contract :: "'pt externals \<Rightarrow> 'pt curve \<Rightarrow> bool" where
  "codec_contract ext crv \<longleftrightarrow>
     (\<forall>a. 0 \<le> a \<longrightarrow> length (export_ed25519 ext (smul ext a (curve_G crv))) = 32) \<and>
     (\<forall>a. 0 \<le> a \<longrightarrow>
        (\<exists>K. import_public_key ext (export_ed25519 ext (smul ext a (curve_G crv))) = Inr K \<and>
             pointQ K = smul ext a (curve_G crv)))"

text \<open>A key with a private half: its public point is \<open>d\<cdot>G\<close>.\<close>

definition private_key_ok :: "'pt externals \<Rightarrow> 'pt ecc_key \<Rightarrow> bool" where
  "private_key_ok ext key \<longleftrightarrow>
     (\<exists>d prefix. key_private key = Some (d, prefix) \<and> 0 \<le> d \<and>
        pointQ key = smul ext d (curve_G (key_curve key)))"

subsection \<open>A small instance of the collaborators\<close>

text \<open>
  The cyclic group of the integers modulo 88 stands for the curve: cofactor 8, the
  subgroup of order 11 generated by 8, the neutral element 0. A point is encoded as its
  32 little-endian bytes. The top bit of the last byte is not part of the number (in
  Ed25519 it carries the sign of \<open>x\<close>, which says nothing when \<open>x\<close> is 0), so a point has
  more than one accepted encoding. The digest is the sum of the bytes and their count, on
  64 bytes.
\<close>

definition mini_curve :: "int curve" where
  "mini_curve = \<lparr>curve_name = ''ed25519'', curve_order = 11, curve_G = 8\<rparr>"

definition mini_digest :: "bytes \<Rightarrow> bytes" where
  "mini_digest data = little_bytes 64 (sum_list (map of_char data) + int (length data))"

definition mini_import :: "bytes \<Rightarrow> error + int \<times> int" where
  "mini_import encoded =
     (if length encoded \<noteq> 32
      then Inl (ValueError ''Incorrect length. Only Ed25519 public keys are supported.'')
      else
        let point_y = from_bytes_little encoded mod 2 ^ 255 in
        if point_y \<ge> 88 then Inl (ValueError ''Invalid Ed25519 key (y)'')
        else Inr (0, point_y))"

definition mini_public :: "int \<Rightarrow> int ecc_key" where
  "mini_public P = \<lparr>key_curve = mini_curve, pointQ = P, key_private = None\<rparr>"

definition mini_private :: "int \<Rightarrow> bytes \<Rightarrow> int ecc_key" where
  "mini_private d prefix =
     \<lparr>key_curve = mini_curve, pointQ = (d * 8) mod 88, key_private = Some (d, prefix)\<rparr>"

definition mini_ext :: "int externals" where
  "mini_ext =
     \<lparr>SHA512_digest = mini_digest,
      import_ed25519_public_key = mini_import,
      construct = (\<lambda>x y. Inr (mini_public y)),
      export_ed25519 = little_bytes 32,
      smul = (\<lambda>n P. (n * P) mod 88),
      padd = (\<lambda>P Q. (P + Q) mod 88)\<rparr>"

section \<open>Properties\<close>

subsection \<open>Bytes and integers\<close>

lemma length_little_bytes: "length (little_bytes n v) = n"
  by (induction n arbitrary: v) simp_all

lemma from_bytes_little_Nil: "from_bytes_little [] = 0"
  by (simp add: from_bytes_little_def)

lemma from_bytes_little_Cons: "from_bytes_little (c # b) = of_char c + 256 * from_bytes_little b"
  by (simp add: from_bytes_little_def)

lemma from_bytes_little_nonneg: "0 \<le> from_bytes_little b"
proof (induction b)
  case Nil
  show ?case by (simp add: from_bytes_little_Nil)
next
  case (Cons c b)
  have "(0::int) \<le> of_char c"
    by (metis of_nat_0_le_iff of_nat_of_char)
  with Cons show ?case by (simp add: from_bytes_little_Cons)
qed

lemma from_little_bytes:
  "0 \<le> v \<Longrightarrow> v < 256 ^ n \<Longrightarrow> from_bytes_little (little_bytes n v) = v"
proof (induction n arbitrary: v)
  case 0
  then show ?case by (simp add: from_bytes_little_Nil)
next
  case (Suc n)
  have "0 \<le> v div 256" using Suc.prems(1) by simp
  moreover have "v div 256 < 256 ^ n"
  proof -
    have "v = 256 * (v div 256) + v mod 256" by simp
    moreover have "0 \<le> v mod 256" by simp
    moreover have "v < 256 * 256 ^ n" using Suc.prems(2) by simp
    ultimately show ?thesis by linarith
  qed
  ultimately have "from_bytes_little (little_bytes n (v div 256)) = v div 256"
    by (rule Suc.IH)
  then show ?case
    by (simp add: from_bytes_little_Cons)
qed

subsection \<open>The steps of \<open>sign\<close> and \<open>verify\<close>\<close>

lemma init_sel:
  "s_key (init ext key c) = key" "s_context (init ext key c) = c"
  "s_A (init ext key c) = export_ed25519 ext (pointQ key)"
  "s_order (init ext key c) = curve_order (key_curve key)"
  by (simp_all add: init_def)

lemma new_InrD:
  "new ext key mode context = Inr self \<Longrightarrow>
     self = init ext key (case context of None \<Rightarrow> [] | Some c \<Rightarrow> c) \<and> length (s_context self) \<le> 255"
  by (auto simp: new_def init_def split: if_splits option.splits)

lemma sign_dom2_spec: "length context \<le> 255 \<Longrightarrow> sign_dom2 context ph = Inr (dom2_spec context ph)"
  by (simp add: sign_dom2_def dom2_spec_def bchr_def)

lemma verify_dom2_spec: "length context \<le> 255 \<Longrightarrow> verify_dom2 context ph = Inr (dom2_spec context ph)"
  by (simp add: verify_dom2_def dom2_spec_def bchr_def)

lemma type_ok: "m \<noteq> Other \<Longrightarrow> is_SHA512Hash m \<or> is_bytes m"
  by (cases m) (simp_all add: is_SHA512Hash_def is_bytes_def)

lemma PHM_spec: "(case m of SHA512Hash digest \<Rightarrow> digest | Bytes raw \<Rightarrow> raw | Other \<Rightarrow> []) = PHM_of m"
  by (simp add: PHM_of_def split: msg_or_hash.splits)

lemma sign_result:
  assumes priv: "has_private (s_key self)"
    and m: "m \<noteq> Other"
    and ctx: "length (s_context self) \<le> 255"
    and L: "0 < s_order self" "s_order self \<le> 2 ^ 256"
    and dom2: "dom2 = dom2_spec (s_context self) (is_SHA512Hash m)"
    and r: "r = from_bytes_little (SHA512_digest ext (dom2 @ key_prefix (s_key self) @ PHM_of m)) mod s_order self"
    and R_pk: "R_pk = export_ed25519 ext (smul ext r (curve_G (key_curve (s_key self))))"
    and s: "s = (r + sign_k ext self dom2 R_pk (PHM_of m) * key_d (s_key self)) mod s_order self"
  shows "fst (sign ext self m) = Inr (R_pk @ little_bytes 32 s)"
proof -
  have s0: "0 \<le> s" using L(1) by (simp add: s)
  have "s < s_order self" using L(1) by (simp add: s)
  then have s1: "s < 256 ^ 32" using L(2) by simp
  have tb: "to_bytes_little s 32 = Inr (little_bytes 32 s)"
    using s0 s1 by (simp add: to_bytes_little_def)
  show ?thesis
    using priv type_ok[OF m] tb
    by (simp add: sign_def Let_def sign_dom2_spec[OF ctx] dom2 r R_pk s)
qed

lemma verify_past_checks:
  assumes len: "length signature = 64"
    and m: "m \<noteq> Other"
    and ctx: "length (s_context self) \<le> 255"
    and imp: "import_public_key ext (take 32 signature) = Inr R_key"
    and s: "from_bytes_little (drop 32 signature) \<le> s_order self"
  shows "fst (verify ext self m signature) =
           (if smul ext (from_bytes_little (drop 32 signature) * 8) (curve_G (key_curve (s_key self)))
               = padd ext (smul ext 8 (pointQ R_key))
                   (smul ext (verify_k ext self (dom2_spec (s_context self) (is_SHA512Hash m))
                                signature (PHM_of m) * 8)
                      (pointQ (s_key self)))
            then Inr () else Inl (ValueError ''The signature is not authentic''))"
  using len type_ok[OF m] s
  by (simp add: verify_def Let_def verify_dom2_spec[OF ctx] imp)

lemma sign_leaves_object: "snd (sign ext self m) = self"
  by (simp add: sign_def Let_def split: sum.splits)

lemma verify_leaves_object: "snd (verify ext self m signature) = self"
  by (simp add: verify_def Let_def split: sum.splits error.splits)

lemma group_eq:
  assumes g: "group_contract ext crv"
    and r: "0 \<le> r" and k: "0 \<le> k" and d: "0 \<le> d"
  shows "smul ext (((r + k * d) mod curve_order crv) * 8) (curve_G crv)
         = padd ext (smul ext 8 (smul ext r (curve_G crv)))
             (smul ext (k * 8) (smul ext d (curve_G crv)))"
proof -
  let ?G = "curve_G crv" and ?L = "curve_order crv"
  from g have L: "0 < ?L"
    and mul: "\<And>a b. 0 \<le> a \<Longrightarrow> 0 \<le> b \<Longrightarrow> smul ext a (smul ext b ?G) = smul ext (a * b) ?G"
    and add: "\<And>a b. 0 \<le> a \<Longrightarrow> 0 \<le> b \<Longrightarrow> padd ext (smul ext a ?G) (smul ext b ?G) = smul ext (a + b) ?G"
    and red: "\<And>a. 0 \<le> a \<Longrightarrow> smul ext (a mod ?L) ?G = smul ext a ?G"
    by (simp_all add: group_contract_def)
  have kd: "0 \<le> k * d" using k d by simp
  have t: "0 \<le> r + k * d" using r kd by simp
  have s: "0 \<le> (r + k * d) mod ?L" using L by simp
  have "smul ext (((r + k * d) mod ?L) * 8) ?G = smul ext (8 * ((r + k * d) mod ?L)) ?G"
    by (simp add: mult.commute)
  also have "\<dots> = smul ext 8 (smul ext ((r + k * d) mod ?L) ?G)"
    using mul[of 8 "(r + k * d) mod ?L"] s by simp
  also have "\<dots> = smul ext 8 (smul ext (r + k * d) ?G)"
    using red[OF t] by simp
  also have "\<dots> = smul ext (8 * (r + k * d)) ?G"
    using mul[of 8 "r + k * d"] t by simp
  also have "\<dots> = smul ext (8 * r + k * 8 * d) ?G"
    by (simp add: algebra_simps)
  also have "\<dots> = padd ext (smul ext (8 * r) ?G) (smul ext (k * 8 * d) ?G)"
    by (rule add[symmetric]) (use r k d in simp_all)
  also have "smul ext (8 * r) ?G = smul ext 8 (smul ext r ?G)"
    using mul[of 8 r] r by simp
  also have "smul ext (k * 8 * d) ?G = smul ext (k * 8) (smul ext d ?G)"
    using mul[of "k * 8" d] k d by simp
  finally show ?thesis .
qed

lemma verify_rejects_scalar_above_order:
  assumes "length signature = 64"
    and "m \<noteq> Other"
    and "length (s_context self) \<le> 255"
    and "import_public_key ext (take 32 signature) = Inr R_key"
    and "s_order self < from_bytes_little (drop 32 signature)"
  shows "fst (verify ext self m signature) = Inl (ValueError ''The signature is not authentic (S)'')"
  using assms(1,5) type_ok[OF assms(2)]
  by (simp add: verify_def Let_def verify_dom2_spec[OF assms(3)] assms(4))

subsection \<open>The small instance meets the expectations\<close>

lemma mini_sel:
  "SHA512_digest mini_ext = mini_digest"
  "import_ed25519_public_key mini_ext = mini_import"
  "construct mini_ext = (\<lambda>x y. Inr (mini_public y))"
  "export_ed25519 mini_ext = little_bytes 32"
  "smul mini_ext = (\<lambda>n P. (n * P) mod 88)"
  "padd mini_ext = (\<lambda>P Q. (P + Q) mod 88)"
  by (simp_all add: mini_ext_def)

lemma mini_curve_sel:
  "curve_name mini_curve = ''ed25519''" "curve_order mini_curve = 11" "curve_G mini_curve = 8"
  by (simp_all add: mini_curve_def)

lemma mini_group: "group_contract mini_ext mini_curve"
proof -
  have red: "(a mod 11 * 8) mod 88 = (a * 8) mod (88::int)" for a :: int
  proof -
    have "(a mod 11) * 8 = (a * 8) mod (11 * 8)"
      by (simp add: mult_mod_left)
    then show ?thesis by simp
  qed
  show ?thesis
    unfolding group_contract_def mini_sel mini_curve_sel
    by (simp add: red mod_mult_right_eq mod_add_eq mult.assoc distrib_right)
qed

lemma mini_import_export:
  assumes "0 \<le> P" "P < 88"
  shows "import_public_key mini_ext (little_bytes 32 P) = Inr (mini_public P)"
proof -
  have "from_bytes_little (little_bytes 32 P) = P"
    using assms by (intro from_little_bytes) simp_all
  then show ?thesis
    using assms by (simp add: import_public_key_def mini_sel mini_import_def length_little_bytes)
qed

lemma mini_codec: "codec_contract mini_ext mini_curve"
  unfolding codec_contract_def mini_curve_sel
  by (simp add: mini_sel length_little_bytes mini_import_export mini_public_def)

lemma mini_private_ok: "0 \<le> d \<Longrightarrow> private_key_ok mini_ext (mini_private d prefix)"
  by (simp add: private_key_ok_def mini_private_def mini_sel mini_curve_sel)

lemma mini_new_private:
  "length c \<le> 255 \<Longrightarrow> new mini_ext (mini_private d prefix) ''rfc8032'' (Some c) = Inr (init mini_ext (mini_private d prefix) c)"
  by (simp add: new_def mini_private_def mini_curve_sel)

subsection \<open>The scalar of a signature and the group order\<close>

text \<open>
  C1. The claim: a signature whose scalar \<open>s\<close> is not below the group order \<open>L\<close>, \<open>s = L\<close>
  included, is always refused. The test of \<open>verify\<close> is \<^verbatim>\<open>s > self._order\<close>, so \<open>s = L\<close>
  goes on to the equation, where \<open>8\<cdot>L\<cdot>G\<close> is the neutral element. With collaborators
  that meet the expectations above and a public key that is the neutral element, the
  signature made of the encoding of the neutral element followed by the 32 bytes of \<open>L\<close>
  is accepted, for every context and every message of a valid type.
\<close>

theorem verify_accepts_s_equal_order:
  assumes g: "group_contract ext (key_curve key)"
    and c: "codec_contract ext (key_curve key)"
    and Q: "pointQ key = smul ext 0 (curve_G (key_curve key))"
    and new: "new ext key mode context = Inr self"
    and m: "m \<noteq> Other"
  shows "fst (verify ext self m
            (export_ed25519 ext (smul ext 0 (curve_G (key_curve key)))
             @ little_bytes 32 (curve_order (key_curve key)))) = Inr ()"
proof -
  let ?G = "curve_G (key_curve key)" and ?L = "curve_order (key_curve key)"
  let ?O = "smul ext 0 ?G"
  let ?sig = "export_ed25519 ext ?O @ little_bytes 32 ?L"
  from new_InrD[OF new] have self: "self = init ext key (s_context self)"
    and ctx: "length (s_context self) \<le> 255"
    by (auto simp: init_def)
  have sel: "s_key self = key" "s_order self = ?L" "s_A self = export_ed25519 ext (pointQ key)"
    by (subst self, simp add: init_def)+
  from g have L: "0 < ?L" "?L < 2 ^ 256"
    and mul: "\<And>a b. 0 \<le> a \<Longrightarrow> 0 \<le> b \<Longrightarrow> smul ext a (smul ext b ?G) = smul ext (a * b) ?G"
    and add: "\<And>a b. 0 \<le> a \<Longrightarrow> 0 \<le> b \<Longrightarrow> padd ext (smul ext a ?G) (smul ext b ?G) = smul ext (a + b) ?G"
    and red: "\<And>a. 0 \<le> a \<Longrightarrow> smul ext (a mod ?L) ?G = smul ext a ?G"
    by (simp_all add: group_contract_def)
  from c have lenR: "length (export_ed25519 ext ?O) = 32"
    by (simp add: codec_contract_def)
  from c obtain K where K: "import_public_key ext (export_ed25519 ext ?O) = Inr K" and KQ: "pointQ K = ?O"
    unfolding codec_contract_def by (metis order_refl)
  have len: "length ?sig = 64" by (simp add: lenR length_little_bytes)
  have tk: "take 32 ?sig = export_ed25519 ext ?O" by (simp add: lenR)
  have dr: "drop 32 ?sig = little_bytes 32 ?L" by (simp add: lenR)
  have fs: "from_bytes_little (drop 32 ?sig) = ?L"
    unfolding dr using L by (intro from_little_bytes) simp_all
  define k where "k = verify_k ext self (dom2_spec (s_context self) (is_SHA512Hash m)) ?sig (PHM_of m)"
  have k0: "0 \<le> k" using L by (simp add: k_def verify_k_def sel)
  have p1: "smul ext (?L * 8) ?G = ?O"
    using red[of "?L * 8"] L by simp
  have p2: "padd ext (smul ext 8 ?O) (smul ext (k * 8) ?O) = ?O"
    using mul[of 8 0] mul[of "k * 8" 0] add[of 0 0] k0 by simp
  show ?thesis
    using verify_past_checks[of ?sig m self ext K, OF len m ctx]
    using K p1 p2 by (simp only: tk fs sel KQ Q k_def[symmetric] order_refl) simp
qed

theorem verify_accepts_s_equal_order_witness:
  "group_contract mini_ext (key_curve (mini_public 0)) \<and>
   codec_contract mini_ext (key_curve (mini_public 0)) \<and>
   pointQ (mini_public 0) = smul mini_ext 0 (curve_G (key_curve (mini_public 0))) \<and>
   new mini_ext (mini_public 0) ''rfc8032'' None = Inr (init mini_ext (mini_public 0) []) \<and>
   Bytes ''abc'' \<noteq> Other \<and>
   fst (verify mini_ext (init mini_ext (mini_public 0) []) (Bytes ''abc'')
         (little_bytes 32 0 @ little_bytes 32 11)) = Inr ()"
proof -
  have kc: "key_curve (mini_public 0) = mini_curve" by (simp add: mini_public_def)
  have g: "group_contract mini_ext (key_curve (mini_public 0))" by (simp only: kc mini_group)
  have c: "codec_contract mini_ext (key_curve (mini_public 0))" by (simp only: kc mini_codec)
  have q: "pointQ (mini_public 0) = smul mini_ext 0 (curve_G (key_curve (mini_public 0)))"
    by (simp add: mini_public_def mini_sel)
  have n: "new mini_ext (mini_public 0) ''rfc8032'' None = Inr (init mini_ext (mini_public 0) [])"
    by (simp add: new_def mini_public_def mini_curve_sel)
  have m: "Bytes ''abc'' \<noteq> Other" by simp
  have "fst (verify mini_ext (init mini_ext (mini_public 0) []) (Bytes ''abc'')
         (little_bytes 32 0 @ little_bytes 32 11)) = Inr ()"
    using verify_accepts_s_equal_order[OF g c q n m]
    by (simp only: kc mini_sel mini_curve_sel mult_zero_left mod_0)
  with g c q n m show ?thesis by blast
qed

subsection \<open>Signing, then verifying\<close>

text \<open>
  C2. With collaborators that meet the expectations above, for every key with a private
  half whose public point is \<open>d\<cdot>G\<close>, every context that \<open>new\<close> accepts (at most 255 bytes)
  and every message that is raw bytes or a hash object, \<open>sign\<close> returns a signature of 64
  bytes and \<open>verify\<close>, on the same object and message, accepts it.
\<close>

theorem sign_then_verify:
  assumes g: "group_contract ext (key_curve key)"
    and c: "codec_contract ext (key_curve key)"
    and key: "private_key_ok ext key"
    and new: "new ext key mode context = Inr self"
    and m: "m \<noteq> Other"
  shows "\<exists>signature. fst (sign ext self m) = Inr signature \<and> length signature = 64 \<and>
           fst (verify ext self m signature) = Inr ()"
proof -
  let ?G = "curve_G (key_curve key)" and ?L = "curve_order (key_curve key)"
  from new_InrD[OF new] have self: "self = init ext key (s_context self)"
    and ctx: "length (s_context self) \<le> 255"
    by (auto simp: init_def)
  have sel: "s_key self = key" "s_order self = ?L" "s_A self = export_ed25519 ext (pointQ key)"
    by (subst self, simp add: init_def)+
  from key obtain d prefix where priv: "key_private key = Some (d, prefix)"
    and d: "0 \<le> d" and Q: "pointQ key = smul ext d ?G"
    by (auto simp: private_key_ok_def)
  from g have L: "0 < ?L" "?L < 2 ^ 256" by (simp_all add: group_contract_def)
  define dom2 where "dom2 = dom2_spec (s_context self) (is_SHA512Hash m)"
  define r where "r = from_bytes_little (SHA512_digest ext (dom2 @ key_prefix (s_key self) @ PHM_of m)) mod s_order self"
  define R_pk where "R_pk = export_ed25519 ext (smul ext r (curve_G (key_curve (s_key self))))"
  define k where "k = sign_k ext self dom2 R_pk (PHM_of m)"
  define s where "s = (r + k * key_d (s_key self)) mod s_order self"
  define signature where "signature = R_pk @ little_bytes 32 s"
  have r0: "0 \<le> r" using L by (simp add: r_def sel)
  have k0: "0 \<le> k" using L by (simp add: k_def sign_k_def sel)
  have s0: "0 \<le> s" and sL: "s < ?L" using L by (simp_all add: s_def sel)
  have kd: "key_d key = d" by (simp add: key_d_def priv)
  have hp: "has_private (s_key self)" by (simp add: sel has_private_def priv)
  have sg: "fst (sign ext self m) = Inr signature"
    unfolding signature_def
    by (rule sign_result[OF hp m ctx _ _ dom2_def r_def R_pk_def])
       (use L in \<open>simp_all add: sel s_def k_def\<close>)
  from c r0 have lenR: "length R_pk = 32"
    by (simp add: codec_contract_def R_pk_def sel)
  from c r0 obtain K where K: "import_public_key ext R_pk = Inr K" and KQ: "pointQ K = smul ext r ?G"
    unfolding codec_contract_def R_pk_def sel by blast
  have len: "length signature = 64" by (simp add: signature_def lenR length_little_bytes)
  have tk: "take 32 signature = R_pk" by (simp add: signature_def lenR)
  have dr: "drop 32 signature = little_bytes 32 s" by (simp add: signature_def lenR)
  have fs: "from_bytes_little (drop 32 signature) = s"
    unfolding dr using s0 sL L(2) by (intro from_little_bytes) simp_all
  have vk: "verify_k ext self dom2 signature (PHM_of m) = k"
    by (simp add: verify_k_def k_def sign_k_def tk)
  have eq: "smul ext (s * 8) ?G = padd ext (smul ext 8 (smul ext r ?G)) (smul ext (k * 8) (smul ext d ?G))"
    using group_eq[OF g r0 k0 d] by (simp add: s_def sel kd)
  have "fst (verify ext self m signature) = Inr ()"
    using verify_past_checks[of signature m self ext K, OF len m ctx]
    using K sL eq by (simp add: tk fs sel vk[unfolded dom2_def] KQ Q)
  with sg len show ?thesis by blast
qed

theorem sign_then_verify_witness:
  "group_contract mini_ext (key_curve (mini_private 3 ''xy'')) \<and>
   codec_contract mini_ext (key_curve (mini_private 3 ''xy'')) \<and>
   private_key_ok mini_ext (mini_private 3 ''xy'') \<and>
   new mini_ext (mini_private 3 ''xy'') ''rfc8032'' (Some ''ctx'')
     = Inr (init mini_ext (mini_private 3 ''xy'') ''ctx'') \<and>
   Bytes ''abc'' \<noteq> Other \<and>
   (\<exists>signature. fst (sign mini_ext (init mini_ext (mini_private 3 ''xy'') ''ctx'') (Bytes ''abc'')) = Inr signature \<and>
      length signature = 64 \<and>
      fst (verify mini_ext (init mini_ext (mini_private 3 ''xy'') ''ctx'') (Bytes ''abc'') signature) = Inr ())"
proof -
  have kc: "key_curve (mini_private 3 ''xy'') = mini_curve" by (simp add: mini_private_def)
  have g: "group_contract mini_ext (key_curve (mini_private 3 ''xy''))" by (simp only: kc mini_group)
  have c: "codec_contract mini_ext (key_curve (mini_private 3 ''xy''))" by (simp only: kc mini_codec)
  have p: "private_key_ok mini_ext (mini_private 3 ''xy'')" by (rule mini_private_ok) simp
  have n: "new mini_ext (mini_private 3 ''xy'') ''rfc8032'' (Some ''ctx'')
     = Inr (init mini_ext (mini_private 3 ''xy'') ''ctx'')" by (rule mini_new_private) simp
  have m: "Bytes ''abc'' \<noteq> Other" by simp
  show ?thesis
    using g c p n m sign_then_verify[OF g c p n m] by blast
qed

subsection \<open>The value of a signature\<close>

text \<open>
  C3. For every key with a private half and every message of a valid type, on an object
  made by \<open>new\<close>, \<open>sign\<close> returns the bytes that the specification describes
  (\<open>sign_spec\<close>): the encoding of \<open>R = r\<cdot>G\<close> followed by the 32 little-endian bytes of
  \<open>s = (r + k\<cdot>d) mod L\<close>. They are 64 bytes when the point encoding has 32. The group
  order is positive and fits 32 bytes.
\<close>

theorem sign_refines_spec:
  assumes new: "new ext key mode context = Inr self"
    and priv: "has_private key"
    and m: "m \<noteq> Other"
    and L: "0 < curve_order (key_curve key)" "curve_order (key_curve key) \<le> 2 ^ 256"
    and len: "\<forall>P. length (export_ed25519 ext P) = 32"
  shows "fst (sign ext self m) = Inr (sign_spec ext key (s_context self) m) \<and>
         length (sign_spec ext key (s_context self) m) = 64"
proof -
  from new_InrD[OF new] have self: "self = init ext key (s_context self)" and ctx: "length (s_context self) \<le> 255"
    by (auto simp: init_def)
  have k: "s_key self = key" and o: "s_order self = curve_order (key_curve key)"
    and A: "s_A self = export_ed25519 ext (pointQ key)"
    by (subst self, simp add: init_def)+
  have priv': "has_private (s_key self)" and L': "0 < s_order self" "s_order self \<le> 2 ^ 256"
    using priv L by (simp_all add: k o)
  have "fst (sign ext self m) = Inr (sign_spec ext key (s_context self) m)"
    using sign_result[where ext=ext, OF priv' m ctx L' refl refl refl refl]
    by (simp add: sign_spec_def Let_def PHM_spec k o A sign_k_def)
  moreover have "length (sign_spec ext key (s_context self) m) = 64"
    using len by (simp add: sign_spec_def Let_def length_little_bytes)
  ultimately show ?thesis by simp
qed

theorem sign_refines_spec_witness:
  "new mini_ext (mini_private 3 ''xy'') ''rfc8032'' (Some ''ctx'')
     = Inr (init mini_ext (mini_private 3 ''xy'') ''ctx'') \<and>
   has_private (mini_private 3 ''xy'') \<and>
   SHA512Hash ''abc'' \<noteq> Other \<and>
   0 < curve_order (key_curve (mini_private 3 ''xy'')) \<and>
   curve_order (key_curve (mini_private 3 ''xy'')) \<le> 2 ^ 256 \<and>
   (\<forall>P. length (export_ed25519 mini_ext P) = 32) \<and>
   fst (sign mini_ext (init mini_ext (mini_private 3 ''xy'') ''ctx'') (SHA512Hash ''abc''))
     = Inr (sign_spec mini_ext (mini_private 3 ''xy'') ''ctx'' (SHA512Hash ''abc'')) \<and>
   length (sign_spec mini_ext (mini_private 3 ''xy'') ''ctx'' (SHA512Hash ''abc'')) = 64"
proof -
  have n: "new mini_ext (mini_private 3 ''xy'') ''rfc8032'' (Some ''ctx'')
     = Inr (init mini_ext (mini_private 3 ''xy'') ''ctx'')" by (rule mini_new_private) simp
  have p: "has_private (mini_private 3 ''xy'')" by (simp add: has_private_def mini_private_def)
  have m: "SHA512Hash ''abc'' \<noteq> Other" by simp
  have L: "0 < curve_order (key_curve (mini_private 3 ''xy''))"
    "curve_order (key_curve (mini_private 3 ''xy'')) \<le> 2 ^ 256"
    by (simp_all add: mini_private_def mini_curve_sel)
  have e: "\<forall>P. length (export_ed25519 mini_ext P) = 32"
    by (simp add: mini_sel length_little_bytes)
  show ?thesis
    using n p m L e sign_refines_spec[OF n p m L e]
    by (simp only: init_sel simp_thms)
qed

subsection \<open>The verification equation\<close>

text \<open>
  C4. For a signature of 64 bytes whose first half imports as the point \<open>R\<close> and whose
  scalar \<open>s\<close> passes the range test, on a message of a valid type: \<open>verify\<close> returns
  without exception exactly when \<open>(s\<cdot>8)\<cdot>G = 8\<cdot>R + (k\<cdot>8)\<cdot>A\<close>, and raises
  \<^verbatim>\<open>ValueError("The signature is not authentic")\<close> otherwise.
\<close>

theorem verify_iff_equation:
  assumes "length signature = 64"
    and "m \<noteq> Other"
    and "length (s_context self) \<le> 255"
    and "import_public_key ext (take 32 signature) = Inr R_key"
    and "from_bytes_little (drop 32 signature) \<le> s_order self"
  shows "(fst (verify ext self m signature) = Inr () \<longleftrightarrow>
            smul ext (from_bytes_little (drop 32 signature) * 8) (curve_G (key_curve (s_key self)))
            = padd ext (smul ext 8 (pointQ R_key))
                (smul ext (verify_k ext self (dom2_spec (s_context self) (is_SHA512Hash m))
                             signature (PHM_of m) * 8)
                   (pointQ (s_key self)))) \<and>
         (fst (verify ext self m signature) \<noteq> Inr () \<longrightarrow>
            fst (verify ext self m signature) = Inl (ValueError ''The signature is not authentic''))"
  using verify_past_checks[OF assms] by simp

theorem verify_iff_equation_witness:
  "length (little_bytes 32 16 @ little_bytes 32 2) = 64 \<and>
   Bytes [] \<noteq> Other \<and>
   length (s_context (init mini_ext (mini_public 8) [])) \<le> 255 \<and>
   import_public_key mini_ext (take 32 (little_bytes 32 16 @ little_bytes 32 2)) = Inr (mini_public 16) \<and>
   from_bytes_little (drop 32 (little_bytes 32 16 @ little_bytes 32 2))
     \<le> s_order (init mini_ext (mini_public 8) []) \<and>
   smul mini_ext (from_bytes_little (drop 32 (little_bytes 32 16 @ little_bytes 32 2)) * 8)
       (curve_G (key_curve (s_key (init mini_ext (mini_public 8) []))))
     = padd mini_ext (smul mini_ext 8 (pointQ (mini_public 16)))
         (smul mini_ext
            (verify_k mini_ext (init mini_ext (mini_public 8) [])
               (dom2_spec (s_context (init mini_ext (mini_public 8) [])) (is_SHA512Hash (Bytes [])))
               (little_bytes 32 16 @ little_bytes 32 2) (PHM_of (Bytes [])) * 8)
            (pointQ (s_key (init mini_ext (mini_public 8) [])))) \<and>
   fst (verify mini_ext (init mini_ext (mini_public 8) []) (Bytes [])
          (little_bytes 32 16 @ little_bytes 32 2))
     = Inr ()"
proof -
  have h1: "length (little_bytes 32 16 @ little_bytes 32 2) = 64"
    by (simp add: length_little_bytes)
  have h2: "Bytes [] \<noteq> Other" by simp
  have h3: "length (s_context (init mini_ext (mini_public 8) [])) \<le> 255"
    by (simp add: init_sel)
  have h4: "import_public_key mini_ext (take 32 (little_bytes 32 16 @ little_bytes 32 2)) = Inr (mini_public 16)"
    by (simp add: length_little_bytes mini_import_export)
  have h5: "from_bytes_little (drop 32 (little_bytes 32 16 @ little_bytes 32 2))
     \<le> s_order (init mini_ext (mini_public 8) [])"
    by (simp add: length_little_bytes from_little_bytes init_sel mini_public_def mini_curve_sel)
  have ne: "smul mini_ext (from_bytes_little (drop 32 (little_bytes 32 16 @ little_bytes 32 2)) * 8)
       (curve_G (key_curve (s_key (init mini_ext (mini_public 8) []))))
     = padd mini_ext (smul mini_ext 8 (pointQ (mini_public 16)))
         (smul mini_ext
            (verify_k mini_ext (init mini_ext (mini_public 8) [])
               (dom2_spec (s_context (init mini_ext (mini_public 8) [])) (is_SHA512Hash (Bytes [])))
               (little_bytes 32 16 @ little_bytes 32 2) (PHM_of (Bytes [])) * 8)
            (pointQ (s_key (init mini_ext (mini_public 8) []))))"
    by code_simp
  show ?thesis
    using h1 h2 h3 h4 h5 ne verify_iff_equation[OF h1 h2 h3 h4 h5] by blast
qed

subsection \<open>Domain separation\<close>

text \<open>
  C5. \<open>sign\<close> and \<open>verify\<close> build the same prefix \<open>dom2\<close> from the context and the flag
  \<open>ph\<close>, whatever they are. For a context of at most 255 bytes it is the prefix of the
  specification: empty exactly when the context is empty and \<open>ph\<close> is false, otherwise
  the fixed string, the byte of \<open>ph\<close>, the byte of the context's length and the context.
\<close>

theorem dom2_same_in_sign_and_verify:
  "sign_dom2 context ph = verify_dom2 context ph \<and>
   (length context \<le> 255 \<longrightarrow>
      sign_dom2 context ph = Inr (dom2_spec context ph) \<and>
      verify_dom2 context ph = Inr (dom2_spec context ph) \<and>
      (dom2_spec context ph = [] \<longleftrightarrow> context = [] \<and> \<not> ph))"
  by (simp add: sign_dom2_spec verify_dom2_spec)
     (simp add: sign_dom2_def verify_dom2_def dom2_spec_def)

theorem dom2_same_in_sign_and_verify_witness:
  "length ''abc'' \<le> 255 \<and>
   sign_dom2 ''abc'' True = verify_dom2 ''abc'' True \<and>
   sign_dom2 ''abc'' True = Inr (dom2_spec ''abc'' True) \<and>
   verify_dom2 ''abc'' True = Inr (dom2_spec ''abc'' True) \<and>
   dom2_spec ''abc'' True \<noteq> []"
  using dom2_same_in_sign_and_verify[of "''abc''" True] by simp

subsection \<open>Determinism\<close>

lemma sign_new_value:
  assumes new: "new ext key mode context = Inr self"
    and priv: "has_private key"
    and m: "m \<noteq> Other"
    and L: "0 < curve_order (key_curve key)" "curve_order (key_curve key) \<le> 2 ^ 256"
  shows "fst (sign ext self m)
           = Inr (sign_spec ext key (case context of None \<Rightarrow> [] | Some c \<Rightarrow> c) m)"
proof -
  have self: "self = init ext key (case context of None \<Rightarrow> [] | Some c \<Rightarrow> c)"
    using new_InrD[OF new] by (rule conjunct1)
  have ctx: "length (s_context self) \<le> 255"
    using new_InrD[OF new] by (rule conjunct2)
  have sel: "s_key self = key" "s_order self = curve_order (key_curve key)"
    "s_A self = export_ed25519 ext (pointQ key)"
    "s_context self = (case context of None \<Rightarrow> [] | Some c \<Rightarrow> c)"
    by (subst self, simp add: init_def)+
  have priv': "has_private (s_key self)" and L': "0 < s_order self" "s_order self \<le> 2 ^ 256"
    using priv L by (simp_all add: sel)
  show ?thesis
    using sign_result[where ext=ext, OF priv' m ctx L' refl refl refl refl]
    by (simp add: sign_spec_def Let_def PHM_spec sel sign_k_def)
qed

lemma mini_new_default:
  "new mini_ext (mini_private d prefix) ''rfc8032'' None = Inr (init mini_ext (mini_private d prefix) [])"
  by (simp add: new_def mini_private_def mini_curve_sel)

text \<open>
  C6. The signature is a function of the key, the context and the message, and of
  nothing else. For a key with a private half and a message of a valid type, every object
  that \<open>new\<close> makes from the key and the context (absent or empty alike) returns the same
  64 bytes, those that the specification describes (\<open>sign_spec\<close>), and a second call on
  the object that a first call has left returns them again. The group order is positive
  and fits 32 bytes, and the point encoding has 32 bytes.
\<close>

theorem sign_deterministic:
  assumes n1: "new ext key mode1 context1 = Inr self1"
    and n2: "new ext key mode2 context2 = Inr self2"
    and same: "(case context1 of None \<Rightarrow> [] | Some c \<Rightarrow> c) = (case context2 of None \<Rightarrow> [] | Some c \<Rightarrow> c)"
    and priv: "has_private key"
    and m: "m \<noteq> Other"
    and L: "0 < curve_order (key_curve key)" "curve_order (key_curve key) \<le> 2 ^ 256"
    and len: "\<forall>P. length (export_ed25519 ext P) = 32"
  shows "length (sign_spec ext key (case context1 of None \<Rightarrow> [] | Some c \<Rightarrow> c) m) = 64 \<and>
         fst (sign ext self1 m) = Inr (sign_spec ext key (case context1 of None \<Rightarrow> [] | Some c \<Rightarrow> c) m) \<and>
         fst (sign ext self2 m) = Inr (sign_spec ext key (case context1 of None \<Rightarrow> [] | Some c \<Rightarrow> c) m) \<and>
         fst (sign ext (snd (sign ext self1 m)) m)
           = Inr (sign_spec ext key (case context1 of None \<Rightarrow> [] | Some c \<Rightarrow> c) m)"
proof -
  have a: "fst (sign ext self1 m) = Inr (sign_spec ext key (case context1 of None \<Rightarrow> [] | Some c \<Rightarrow> c) m)"
    by (rule sign_new_value[OF n1 priv m L])
  have b: "fst (sign ext self2 m) = Inr (sign_spec ext key (case context1 of None \<Rightarrow> [] | Some c \<Rightarrow> c) m)"
    using sign_new_value[OF n2 priv m L] by (simp only: same)
  have c: "length (sign_spec ext key (case context1 of None \<Rightarrow> [] | Some c \<Rightarrow> c) m) = 64"
    using len by (simp add: sign_spec_def Let_def length_little_bytes)
  show ?thesis using a b c by (simp add: sign_leaves_object)
qed

theorem sign_deterministic_witness:
  "new mini_ext (mini_private 3 ''xy'') ''rfc8032'' None
     = Inr (init mini_ext (mini_private 3 ''xy'') []) \<and>
   new mini_ext (mini_private 3 ''xy'') ''rfc8032'' (Some [])
     = Inr (init mini_ext (mini_private 3 ''xy'') []) \<and>
   (case None of None \<Rightarrow> [] | Some c \<Rightarrow> c) = (case Some [] of None \<Rightarrow> [] | Some c \<Rightarrow> (c :: bytes)) \<and>
   has_private (mini_private 3 ''xy'') \<and>
   SHA512Hash ''abc'' \<noteq> Other \<and>
   0 < curve_order (key_curve (mini_private 3 ''xy'')) \<and>
   curve_order (key_curve (mini_private 3 ''xy'')) \<le> 2 ^ 256 \<and>
   (\<forall>P. length (export_ed25519 mini_ext P) = 32) \<and>
   length (sign_spec mini_ext (mini_private 3 ''xy'') [] (SHA512Hash ''abc'')) = 64 \<and>
   fst (sign mini_ext (init mini_ext (mini_private 3 ''xy'') []) (SHA512Hash ''abc''))
     = Inr (sign_spec mini_ext (mini_private 3 ''xy'') [] (SHA512Hash ''abc'')) \<and>
   fst (sign mini_ext
          (snd (sign mini_ext (init mini_ext (mini_private 3 ''xy'') []) (SHA512Hash ''abc'')))
          (SHA512Hash ''abc''))
     = Inr (sign_spec mini_ext (mini_private 3 ''xy'') [] (SHA512Hash ''abc'')) \<and>
   sign_spec mini_ext (mini_private 3 ''xy'') [] (SHA512Hash ''abc'')
     = CHR ''@'' # replicate 31 (CHR 0x00) @ CHR 0x01 # replicate 31 (CHR 0x00)"
proof -
  have v: "sign_spec mini_ext (mini_private 3 ''xy'') [] (SHA512Hash ''abc'')
     = CHR ''@'' # replicate 31 (CHR 0x00) @ CHR 0x01 # replicate 31 (CHR 0x00)"
    by code_simp
  have n1: "new mini_ext (mini_private 3 ''xy'') ''rfc8032'' None
     = Inr (init mini_ext (mini_private 3 ''xy'') [])" by (rule mini_new_default)
  have n2: "new mini_ext (mini_private 3 ''xy'') ''rfc8032'' (Some [])
     = Inr (init mini_ext (mini_private 3 ''xy'') [])" by (rule mini_new_private) simp
  have same: "(case None of None \<Rightarrow> [] | Some c \<Rightarrow> c) = (case Some [] of None \<Rightarrow> [] | Some c \<Rightarrow> (c :: bytes))"
    by simp
  have p: "has_private (mini_private 3 ''xy'')" by (simp add: has_private_def mini_private_def)
  have m: "SHA512Hash ''abc'' \<noteq> Other" by simp
  have L: "0 < curve_order (key_curve (mini_private 3 ''xy''))"
    "curve_order (key_curve (mini_private 3 ''xy'')) \<le> 2 ^ 256"
    by (simp_all add: mini_private_def mini_curve_sel)
  have e: "\<forall>P. length (export_ed25519 mini_ext P) = 32"
    by (simp add: mini_sel length_little_bytes)
  show ?thesis
    using n1 n2 same p m L e v sign_deterministic[OF n1 n2 same p m L e]
    by (simp only: option.case simp_thms)
qed

subsection \<open>The challenge in \<open>verify\<close>\<close>

text \<open>
  C7, as stated: the challenge of \<open>verify\<close> is the challenge of \<open>sign\<close> on the encoding
  of the decoded point \<open>R\<close>. It fails where the first half of the signature is an accepted
  encoding that is not the one \<open>export_ed25519\<close> produces: in the small instance, the
  neutral element with the top bit set. \<open>verify\<close> accepts that signature with the
  challenge 2, and the encoding of the decoded point gives the challenge 6.
\<close>

theorem verify_k_reencoded_counterexample:
  "import_public_key mini_ext (take 32 (replicate 31 (CHR 0x00) @ [CHR 0x80] @ little_bytes 32 2))
     = Inr (mini_public 0) \<and>
   fst (verify mini_ext (init mini_ext (mini_public 8) []) (Bytes [])
          (replicate 31 (CHR 0x00) @ [CHR 0x80] @ little_bytes 32 2)) = Inr () \<and>
   verify_k mini_ext (init mini_ext (mini_public 8) []) []
      (replicate 31 (CHR 0x00) @ [CHR 0x80] @ little_bytes 32 2) [] = 2 \<and>
   sign_k mini_ext (init mini_ext (mini_public 8) []) []
      (export_ed25519 mini_ext (pointQ (mini_public 0))) [] = 6 \<and>
   verify_k mini_ext (init mini_ext (mini_public 8) []) []
      (replicate 31 (CHR 0x00) @ [CHR 0x80] @ little_bytes 32 2) []
   \<noteq> sign_k mini_ext (init mini_ext (mini_public 8) []) []
      (export_ed25519 mini_ext (pointQ (mini_public 0))) []"
  by code_simp

text \<open>
  C7, amended: the challenge of \<open>verify\<close> is the challenge of \<open>sign\<close> on the first 32
  bytes of the signature as they were received, with the object's own \<open>A\<close>; it is the
  challenge on the encoding of the decoded point whenever that encoding is those 32 bytes.
\<close>

theorem verify_k_uses_signature_bytes:
  "verify_k ext self dom2 signature PHM = sign_k ext self dom2 (take 32 signature) PHM \<and>
   (import_public_key ext (take 32 signature) = Inr R_key \<and>
    export_ed25519 ext (pointQ R_key) = take 32 signature \<longrightarrow>
      verify_k ext self dom2 signature PHM
        = sign_k ext self dom2 (export_ed25519 ext (pointQ R_key)) PHM)"
  by (simp add: verify_k_def sign_k_def)

theorem verify_k_uses_signature_bytes_witness:
  "import_public_key mini_ext (take 32 (little_bytes 32 16 @ little_bytes 32 2)) = Inr (mini_public 16) \<and>
   export_ed25519 mini_ext (pointQ (mini_public 16)) = take 32 (little_bytes 32 16 @ little_bytes 32 2) \<and>
   verify_k mini_ext (init mini_ext (mini_public 8) []) [] (little_bytes 32 16 @ little_bytes 32 2) []
     = sign_k mini_ext (init mini_ext (mini_public 8) []) []
         (export_ed25519 mini_ext (pointQ (mini_public 16))) []"
proof -
  have h1: "import_public_key mini_ext (take 32 (little_bytes 32 16 @ little_bytes 32 2)) = Inr (mini_public 16)"
    by (simp add: length_little_bytes mini_import_export)
  have h2: "export_ed25519 mini_ext (pointQ (mini_public 16)) = take 32 (little_bytes 32 16 @ little_bytes 32 2)"
    by (simp add: length_little_bytes mini_sel mini_public_def)
  show ?thesis
    using h1 h2 verify_k_uses_signature_bytes[of mini_ext "init mini_ext (mini_public 8) []" "[]"
        "little_bytes 32 16 @ little_bytes 32 2" "[]" "mini_public 16"]
    by blast
qed

subsection \<open>The order of the checks in \<open>sign\<close>\<close>

text \<open>
  C8, as stated: an argument of an invalid type makes \<open>sign\<close> raise the input-type error
  also when the key is public only. \<open>sign\<close> tests the key first: on a public-only key it
  raises \<^verbatim>\<open>TypeError("Private key is needed to sign")\<close> for an argument of any type.
\<close>

theorem sign_type_error_first_counterexample:
  "\<not> has_private (s_key (init mini_ext (mini_public 8) [])) \<and>
   fst (sign mini_ext (init mini_ext (mini_public 8) []) Other)
     = Inl (TypeError ''Private key is needed to sign'') \<and>
   fst (sign mini_ext (init mini_ext (mini_public 8) []) Other)
     \<noteq> Inl (TypeError '''msg_or_hash' must be bytes of a SHA-512 hash'')"
  by (simp add: sign_def init_def mini_public_def has_private_def)

text \<open>
  C8, amended: \<open>sign\<close> first raises \<^verbatim>\<open>TypeError("Private key is needed to sign")\<close> when the
  key has no private half, whatever the argument; with a private half, an argument that is
  neither bytes nor a hash object raises the input-type \<^verbatim>\<open>TypeError\<close>.
\<close>

theorem sign_checks_private_key_first:
  "(\<not> has_private (s_key self) \<longrightarrow>
      fst (sign ext self m) = Inl (TypeError ''Private key is needed to sign'')) \<and>
   (has_private (s_key self) \<and> m = Other \<longrightarrow>
      fst (sign ext self m) = Inl (TypeError '''msg_or_hash' must be bytes of a SHA-512 hash''))"
  by (simp add: sign_def Let_def is_SHA512Hash_def is_bytes_def)

theorem sign_checks_private_key_first_witness:
  "\<not> has_private (s_key (init mini_ext (mini_public 8) [])) \<and>
   fst (sign mini_ext (init mini_ext (mini_public 8) []) (Bytes ''abc''))
     = Inl (TypeError ''Private key is needed to sign'') \<and>
   has_private (s_key (init mini_ext (mini_private 3 ''xy'') [])) \<and>
   fst (sign mini_ext (init mini_ext (mini_private 3 ''xy'') []) Other)
     = Inl (TypeError '''msg_or_hash' must be bytes of a SHA-512 hash'')"
proof -
  have h1: "\<not> has_private (s_key (init mini_ext (mini_public 8) []))"
    by (simp add: init_sel has_private_def mini_public_def)
  have h2: "has_private (s_key (init mini_ext (mini_private 3 ''xy'') []))"
    by (simp add: init_sel has_private_def mini_private_def)
  show ?thesis
    using h1 h2
      sign_checks_private_key_first[of "init mini_ext (mini_public 8) []" mini_ext "Bytes ''abc''"]
      sign_checks_private_key_first[of "init mini_ext (mini_private 3 ''xy'') []" mini_ext Other]
    by blast
qed

subsection \<open>The order of the checks in \<open>verify\<close>\<close>

text \<open>
  C9. A signature whose length is not 64 raises the length error, whatever the type of
  the message; a signature of 64 bytes with a message that is neither bytes nor a hash
  object raises \<^verbatim>\<open>TypeError\<close>, which is no \<^verbatim>\<open>ValueError\<close>.
\<close>

theorem verify_length_before_type:
  "(length signature \<noteq> 64 \<longrightarrow>
      fst (verify ext self m signature) = Inl (ValueError ''The signature is not authentic (length)'')) \<and>
   (length signature = 64 \<and> m = Other \<longrightarrow>
      fst (verify ext self m signature) = Inl (TypeError '''msg_or_hash' must be bytes of a SHA-512 hash'')) \<and>
   (\<forall>text. TypeError '''msg_or_hash' must be bytes of a SHA-512 hash'' \<noteq> ValueError text)"
  by (simp add: verify_def Let_def is_SHA512Hash_def is_bytes_def)

theorem verify_length_before_type_witness:
  "length ''short'' \<noteq> 64 \<and>
   fst (verify mini_ext (init mini_ext (mini_public 8) []) Other ''short'')
     = Inl (ValueError ''The signature is not authentic (length)'') \<and>
   length (replicate 64 (CHR 0x00)) = 64 \<and>
   fst (verify mini_ext (init mini_ext (mini_public 8) []) Other (replicate 64 (CHR 0x00)))
     = Inl (TypeError '''msg_or_hash' must be bytes of a SHA-512 hash'')"
proof -
  have h1: "length ''short'' \<noteq> 64" by simp
  have h2: "length (replicate 64 (CHR 0x00)) = 64" by simp
  show ?thesis
    using h1 h2
      verify_length_before_type[of "''short''" mini_ext "init mini_ext (mini_public 8) []" Other]
      verify_length_before_type[of "replicate 64 (CHR 0x00)" mini_ext "init mini_ext (mini_public 8) []" Other]
    by blast
qed

subsection \<open>The object is not modified\<close>

text \<open>
  C10. A call of \<open>sign\<close> or of \<open>verify\<close>, whether it returns or raises, leaves the
  object as it was: the key, the context, the encoded public key and the group order.
\<close>

theorem calls_leave_scheme_unchanged:
  "snd (sign ext self m) = self \<and> snd (verify ext self m signature) = self"
  by (simp add: sign_leaves_object verify_leaves_object)

end
